theory Spec2Isabelle
  imports Complex_Main
begin

section \<open>FAISS index builder (backend/models/faiss\_store.py)\<close>

text \<open>
  The module holds one class, \<open>FAISSBuilder\<close>, whose \<open>build\<close> function loads an embedding
  matrix, builds a FAISS index over it, benchmarks the index and saves it with a metadata
  file and a ``latest'' symbolic link. NumPy, FAISS, the clock and the file system are
  outside the module: what they answer is given by a \<open>world\<close> record, and every call the
  builder makes to them is recorded, in order, in the \<open>trace\<close> of the state. Exceptions are
  values of type \<open>error\<close>; an action is a function from the state to a result and a state.
\<close>

subsection \<open>Arrays\<close>

text \<open>An IEEE float is finite, not-a-number, or one of the two infinities.\<close>

datatype fval = Fin real | NaN | PosInf | NegInf

datatype dtype = Float32 | Float64 | Int64 | Unicode

text \<open>An \<open>ndarray\<close>: element type, shape tuple, and the cells in row-major order.\<close>

record ndarray =
  dtype :: dtype
  shape :: "nat list"
  cells :: "fval list"

definition numeric :: "dtype \<Rightarrow> bool" where
  "numeric t = (t \<noteq> Unicode)"

text \<open>\<open>np.isnan(a).sum()\<close>\<close>

definition nan_count :: "ndarray \<Rightarrow> nat" where
  "nan_count a = length (filter (\<lambda>v. v = NaN) (cells a))"

text \<open>The largest finite value of the element type (\<open>np.finfo(dtype).max\<close>).\<close>

definition finfo_max :: "dtype \<Rightarrow> real" where
  "finfo_max t = (if t = Float32 then (2 ^ 24 - 1) * 2 ^ 104 else (2 ^ 53 - 1) * 2 ^ 971)"

text \<open>
  \<open>np.nan_to_num(a)\<close> with its defaults: NaN becomes 0.0, the infinities become the largest
  and the smallest finite value of the element type, every other cell is kept.
\<close>

fun nan_to_num_cell :: "dtype \<Rightarrow> fval \<Rightarrow> fval" where
  "nan_to_num_cell t NaN = Fin 0"
| "nan_to_num_cell t PosInf = Fin (finfo_max t)"
| "nan_to_num_cell t NegInf = Fin (- finfo_max t)"
| "nan_to_num_cell t (Fin x) = Fin x"

definition nan_to_num :: "ndarray \<Rightarrow> ndarray" where
  "nan_to_num a = a\<lparr>cells := map (nan_to_num_cell (dtype a)) (cells a)\<rparr>"

text \<open>
  \<open>a[i:j]\<close> on the first axis, for \<open>i \<le> j\<close>: the upper bound is clipped to the number of
  rows; one row is as many cells as the product of the remaining axes.
\<close>

definition row_size :: "ndarray \<Rightarrow> nat" where
  "row_size a = prod_list (tl (shape a))"

definition slice_rows :: "ndarray \<Rightarrow> nat \<Rightarrow> nat \<Rightarrow> ndarray" where
  "slice_rows a i j =
     (let hi = min j (hd (shape a))
      in a\<lparr>shape := (hi - i) # tl (shape a),
            cells := take ((hi - i) * row_size a) (drop (i * row_size a) (cells a))\<rparr>)"

subsection \<open>Errors, calls and the state\<close>

type_synonym path = string

datatype variant = Flat | IVFPQ | HNSW

text \<open>
  The index object handed around by the builder: its FAISS class (\<open>IndexFlatL2\<close>,
  \<open>IndexIVFPQ\<close>, \<open>IndexHNSWFlat\<close>) with the constructor arguments, whether it lives on the
  GPU, and the attributes the builder assigns (\<open>None\<close> while the builder has not assigned
  them).
\<close>

record index =
  variant :: variant
  index_d :: nat
  nlist :: nat
  subvectors :: nat
  bits :: nat
  hnsw_M :: nat
  on_gpu :: bool
  ntotal :: nat
  nprobe :: "nat option"
  efConstruction :: "nat option"
  efSearch :: "nat option"

text \<open>Every call that leaves the module, with its arguments.\<close>

datatype call =
    NewIndexFlatL2 nat
  | NewIndexIVFPQ nat nat nat nat
  | NewIndexHNSWFlat nat nat
  | SetEfConstruction nat
  | GetNumGpus
  | StandardGpuResources
  | IndexCpuToGpu
  | Train ndarray
  | Add ndarray
  | SetNprobe nat
  | SetEfSearch nat
  | IndexGpuToCpu
  | Search ndarray nat
  | WriteIndex path
  | PickleDump path
  | OsRemove path
  | OsSymlink path path

datatype error =
    FileNotFoundError
  | LoadError
  | AttributeError
  | TypeError
  | IndexError
  | UnknownIndexType string
  | UnboundLocalError
  | EngineError call
  | ZeroDivisionError
  | OSError
  | IsADirectoryError
  | FileExistsError

text \<open>
  \<open>UnknownIndexType t\<close> is the \<open>ValueError("Unknown index type: t")\<close> of \<open>build_index\<close>;
  \<open>LoadError\<close> is whatever \<open>np.load\<close> raises on a file that is there but is not a stored
  array; \<open>EngineError c\<close> is an exception raised inside the FAISS call \<open>c\<close>.
\<close>

datatype level = INFO | WARNING | ERROR

datatype message =
    Loaded nat nat
  | FoundNaN nat
  | FileNotFoundAt path
  | ErrorLoading error
  | BuildingFlat
  | BuildingIVFPQ nat nat nat
  | BuildingHNSW nat nat
  | UnknownIndexTypeMsg string
  | MovingToGpu
  | TrainingIndex
  | TrainingCompleted real
  | AddingVectors
  | AddedVectors nat real
  | NprobeSet nat
  | EfSearchSet
  | ConvertingBackToCpu
  | TestingSearch nat
  | AverageSearchTime real
  | QueriesPerSecond real
  | IndexSaved path
  | MetadataSaved path
  | SymlinkCreated path
  | BuildComplete real

record metadata =
  md_index_type :: string
  md_num_vectors :: nat
  md_dimension :: nat
  md_build_time :: real
  md_avg_query_time_ms :: real
  md_queries_per_second :: real
  md_nprobe :: "nat option"
  md_ef_search :: "nat option"

datatype content = IndexBlob index | MetaBlob metadata | Partial

datatype node = File content | Symlink path | Dir

text \<open>
  The state: the calls made so far, the log records written so far, the number of clock
  readings taken so far, and the files of the save directory. Paths are absolute, as the
  defaults of \<open>main\<close> make them, so that the target of a link is looked up as it is written.
\<close>

record state =
  trace :: "call list"
  logs :: "(level \<times> message) list"
  ticks :: nat
  files :: "path \<rightharpoonup> node"

datatype loaded = Missing | Unreadable | Archive | Array ndarray

datatype attr = A_train | A_nprobe | A_hnsw | A_hnsw_efSearch

datatype write_outcome = Written | OpenFailed | WriteFailed

record timestamp =
  year :: nat
  month :: nat
  day :: nat
  hour :: nat
  minute :: nat
  second :: nat

text \<open>
  What the world answers: the object \<open>np.load\<close> returns for a path; which attributes
  \<open>hasattr\<close> finds on an index of a given class, on the GPU or not; which FAISS calls raise;
  \<open>faiss.get_num_gpus()\<close>; the successive readings of \<open>time.time()\<close>; the local time read
  by \<open>time.strftime\<close>; and how a write to a path ends.
\<close>

record world =
  np_load :: "path \<Rightarrow> loaded"
  has_attr :: "variant \<Rightarrow> bool \<Rightarrow> attr \<Rightarrow> bool"
  raises :: "call \<Rightarrow> bool"
  num_gpus :: nat
  clock :: "nat \<Rightarrow> real"
  localtime :: timestamp
  write_outcome :: "path \<Rightarrow> write_outcome"

type_synonym 'a action = "state \<Rightarrow> (error + 'a) \<times> state"

definition return_m :: "'a \<Rightarrow> 'a action" where
  "return_m x s = (Inr x, s)"

definition raise_m :: "error \<Rightarrow> 'a action" where
  "raise_m e s = (Inl e, s)"

definition bind_m :: "'a action \<Rightarrow> ('a \<Rightarrow> 'b action) \<Rightarrow> 'b action" where
  "bind_m f g s = (case f s of (Inl e, s') \<Rightarrow> (Inl e, s') | (Inr x, s') \<Rightarrow> g x s')"

definition log_m :: "level \<Rightarrow> message \<Rightarrow> unit action" where
  "log_m l m s = (Inr (), s\<lparr>logs := logs s @ [(l, m)]\<rparr>)"

text \<open>A FAISS call: it is recorded, and it raises when the world says so.\<close>

definition invoke :: "world \<Rightarrow> call \<Rightarrow> unit action" where
  "invoke w c s =
     (if raises w c then Inl (EngineError c) else Inr (), s\<lparr>trace := trace s @ [c]\<rparr>)"

text \<open>\<open>time.time()\<close>: the next reading of the clock.\<close>

definition time_time :: "world \<Rightarrow> real action" where
  "time_time w s = (Inr (clock w (ticks s)), s\<lparr>ticks := Suc (ticks s)\<rparr>)"

text \<open>\<open>hasattr(index, name)\<close>\<close>

definition hasattr :: "world \<Rightarrow> index \<Rightarrow> attr \<Rightarrow> bool" where
  "hasattr w ix a = has_attr w (variant ix) (on_gpu ix) a"

subsection \<open>The builder\<close>

record builder =
  data_path :: path
  save_dir :: path
  index_type :: string
  use_gpu :: bool

text \<open>\<open>str.lower\<close> on ASCII text.\<close>

definition lower_char :: "char \<Rightarrow> char" where
  "lower_char c =
     (case map_of (zip ''ABCDEFGHIJKLMNOPQRSTUVWXYZ'' ''abcdefghijklmnopqrstuvwxyz'') c of
        Some l \<Rightarrow> l
      | None \<Rightarrow> c)"

definition lower :: "string \<Rightarrow> string" where
  "lower s = map lower_char s"

text \<open>
  \<open>FAISSBuilder.__init__\<close>: the fields of the new object. (It also makes sure the save
  directory exists, which leaves the files below it as they are.)
\<close>

definition init :: "path \<Rightarrow> path \<Rightarrow> string \<Rightarrow> bool \<Rightarrow> builder" where
  "init dp sd ty gpu = \<lparr>data_path = dp, save_dir = sd, index_type = lower ty, use_gpu = gpu\<rparr>"

subsection \<open>\<open>load_embeddings\<close>\<close>

text \<open>
  The body of the \<open>try\<close>. The first log line evaluates \<open>len(embeddings)\<close>, which raises
  \<open>TypeError\<close> on a rank-0 array, and \<open>embeddings.shape[1]\<close>, which raises \<open>IndexError\<close> on a
  rank-1 array and \<open>AttributeError\<close> on an archive; \<open>np.isnan\<close> raises \<open>TypeError\<close> on an
  array that is not numeric.
\<close>

definition load_body :: "world \<Rightarrow> builder \<Rightarrow> ndarray action" where
  "load_body w b =
     (case np_load w (data_path b) of
        Missing \<Rightarrow> raise_m FileNotFoundError
      | Unreadable \<Rightarrow> raise_m LoadError
      | Archive \<Rightarrow> raise_m AttributeError
      | Array embeddings \<Rightarrow>
          (case shape embeddings of
             [] \<Rightarrow> raise_m TypeError
           | [n] \<Rightarrow> raise_m IndexError
           | n # d # rest \<Rightarrow>
               bind_m (log_m INFO (Loaded n d)) (\<lambda>_.
               if \<not> numeric (dtype embeddings) then raise_m TypeError
               else if nan_count embeddings > 0 then
                 bind_m (log_m WARNING (FoundNaN (nan_count embeddings))) (\<lambda>_.
                 return_m (nan_to_num embeddings))
               else return_m embeddings)))"

text \<open>The two \<open>except\<close> clauses log the error and raise it again.\<close>

definition load_embeddings :: "world \<Rightarrow> builder \<Rightarrow> ndarray action" where
  "load_embeddings w b s =
     (case load_body w b s of
        (Inl FileNotFoundError, s') \<Rightarrow>
          (Inl FileNotFoundError, snd (log_m ERROR (FileNotFoundAt (data_path b)) s'))
      | (Inl e, s') \<Rightarrow> (Inl e, snd (log_m ERROR (ErrorLoading e) s'))
      | (Inr embeddings, s') \<Rightarrow> (Inr embeddings, s'))"

subsection \<open>\<open>build_index\<close>\<close>

text \<open>
  \<open>int(np.sqrt(n))\<close> for a non-negative integer \<open>n\<close>: the integer part of the square root.
  (The float square root is correctly rounded, so below \<open>2^52\<close> its integer part is the
  integer square root; above, both are far beyond the cap of 1024 that follows.)
\<close>

function int_sqrt :: "nat \<Rightarrow> nat" where
  "int_sqrt n =
     (if n < 2 then n
      else (let r = 2 * int_sqrt (n div 4)
            in if (r + 1) * (r + 1) \<le> n then r + 1 else r))"
  by pat_completeness auto
termination
  by (relation "measure id") auto

declare int_sqrt.simps [simp del]

text \<open>Lines 100--101, 105 and 154: the parameters derived for an IVFPQ index.\<close>

definition num_clusters :: "nat \<Rightarrow> nat" where
  "num_clusters num_vectors = max (min (int_sqrt num_vectors) 1024) 4"

definition num_subvectors :: "nat \<Rightarrow> nat" where
  "num_subvectors dimension = min 64 (dimension div 2)"

definition nprobe_for :: "nat \<Rightarrow> nat" where
  "nprobe_for clusters = max 1 (clusters div 10)"

definition new_index :: "variant \<Rightarrow> nat \<Rightarrow> index" where
  "new_index v d =
     \<lparr>variant = v, index_d = d, nlist = 0, subvectors = 0, bits = 0, hnsw_M = 0,
      on_gpu = False, ntotal = 0, nprobe = None, efConstruction = None, efSearch = None\<rparr>"

text \<open>
  The \<open>if\<close>/\<open>elif\<close> chain on \<open>self.index_type\<close>. It returns the new index together with the
  local variable \<open>num_clusters\<close>, which only the \<open>ivfpq\<close> branch binds.
\<close>

definition select_index :: "world \<Rightarrow> builder \<Rightarrow> nat \<Rightarrow> nat \<Rightarrow> (index \<times> nat option) action" where
  "select_index w b dimension num_vectors =
     (if index_type b = ''flat'' then
        bind_m (log_m INFO BuildingFlat) (\<lambda>_.
        bind_m (invoke w (NewIndexFlatL2 dimension)) (\<lambda>_.
        return_m (new_index Flat dimension, None)))
      else if index_type b = ''ivfpq'' then
        (let clusters = num_clusters num_vectors;
             subv = num_subvectors dimension;
             bits_per_code = 8
         in bind_m (log_m INFO (BuildingIVFPQ clusters subv bits_per_code)) (\<lambda>_.
            bind_m (invoke w (NewIndexFlatL2 dimension)) (\<lambda>_.
            bind_m (invoke w (NewIndexIVFPQ dimension clusters subv bits_per_code)) (\<lambda>_.
            return_m ((new_index IVFPQ dimension)
                        \<lparr>nlist := clusters, subvectors := subv, bits := bits_per_code\<rparr>,
                      Some clusters)))))
      else if index_type b = ''hnsw'' then
        bind_m (log_m INFO (BuildingHNSW 16 200)) (\<lambda>_.
        bind_m (invoke w (NewIndexHNSWFlat dimension 16)) (\<lambda>_.
        bind_m (invoke w (SetEfConstruction 200)) (\<lambda>_.
        return_m ((new_index HNSW dimension)\<lparr>hnsw_M := 16, efConstruction := Some 200\<rparr>, None))))
      else
        bind_m (log_m ERROR (UnknownIndexTypeMsg (index_type b))) (\<lambda>_.
        raise_m (UnknownIndexType (index_type b))))"

text \<open>\<open>self.use_gpu and faiss.get_num_gpus() > 0\<close>\<close>

definition gpu_wanted :: "world \<Rightarrow> builder \<Rightarrow> bool action" where
  "gpu_wanted w b =
     (if use_gpu b then bind_m (invoke w GetNumGpus) (\<lambda>_. return_m (num_gpus w > 0))
      else return_m False)"

definition move_to_gpu :: "world \<Rightarrow> builder \<Rightarrow> index \<Rightarrow> index action" where
  "move_to_gpu w b ix =
     bind_m (gpu_wanted w b) (\<lambda>g.
     if g then
       bind_m (log_m INFO MovingToGpu) (\<lambda>_.
       bind_m (invoke w StandardGpuResources) (\<lambda>_.
       bind_m (invoke w IndexCpuToGpu) (\<lambda>_.
       return_m (ix\<lparr>on_gpu := True\<rparr>))))
     else return_m ix)"

definition train_if_needed :: "world \<Rightarrow> index \<Rightarrow> ndarray \<Rightarrow> unit action" where
  "train_if_needed w ix embeddings =
     (if hasattr w ix A_train then
        bind_m (log_m INFO TrainingIndex) (\<lambda>_.
        bind_m (time_time w) (\<lambda>start_time.
        bind_m (invoke w (Train embeddings)) (\<lambda>_.
        bind_m (time_time w) (\<lambda>t.
        log_m INFO (TrainingCompleted (t - start_time))))))
      else return_m ())"

definition add_vectors :: "world \<Rightarrow> index \<Rightarrow> ndarray \<Rightarrow> nat \<Rightarrow> index action" where
  "add_vectors w ix embeddings num_vectors =
     bind_m (log_m INFO AddingVectors) (\<lambda>_.
     bind_m (time_time w) (\<lambda>start_time.
     bind_m (invoke w (Add embeddings)) (\<lambda>_.
     bind_m (time_time w) (\<lambda>t.
     bind_m (log_m INFO (AddedVectors (ntotal ix + num_vectors) (t - start_time))) (\<lambda>_.
     return_m (ix\<lparr>ntotal := ntotal ix + num_vectors\<rparr>))))))"

definition set_nprobe :: "world \<Rightarrow> index \<Rightarrow> nat option \<Rightarrow> index action" where
  "set_nprobe w ix clusters_var =
     (if hasattr w ix A_nprobe then
        (case clusters_var of
           None \<Rightarrow> raise_m UnboundLocalError
         | Some clusters \<Rightarrow>
             bind_m (invoke w (SetNprobe (nprobe_for clusters))) (\<lambda>_.
             bind_m (log_m INFO (NprobeSet (nprobe_for clusters))) (\<lambda>_.
             return_m (ix\<lparr>nprobe := Some (nprobe_for clusters)\<rparr>))))
      else return_m ix)"

definition set_ef_search :: "world \<Rightarrow> index \<Rightarrow> index action" where
  "set_ef_search w ix =
     (if hasattr w ix A_hnsw \<and> hasattr w ix A_hnsw_efSearch then
        bind_m (invoke w (SetEfSearch 64)) (\<lambda>_.
        bind_m (log_m INFO EfSearchSet) (\<lambda>_.
        return_m (ix\<lparr>efSearch := Some 64\<rparr>)))
      else return_m ix)"

definition move_to_cpu :: "world \<Rightarrow> builder \<Rightarrow> index \<Rightarrow> index action" where
  "move_to_cpu w b ix =
     bind_m (gpu_wanted w b) (\<lambda>g.
     if g then
       bind_m (log_m INFO ConvertingBackToCpu) (\<lambda>_.
       bind_m (invoke w IndexGpuToCpu) (\<lambda>_.
       return_m (ix\<lparr>on_gpu := False\<rparr>)))
     else return_m ix)"

definition build_index :: "world \<Rightarrow> builder \<Rightarrow> ndarray \<Rightarrow> index action" where
  "build_index w b embeddings =
     (case shape embeddings of
        [] \<Rightarrow> raise_m IndexError
      | [n] \<Rightarrow> raise_m IndexError
      | num_vectors # dimension # rest \<Rightarrow>
          bind_m (select_index w b dimension num_vectors) (\<lambda>(ix0, clusters_var).
          bind_m (move_to_gpu w b ix0) (\<lambda>ix1.
          bind_m (train_if_needed w ix1 embeddings) (\<lambda>_.
          bind_m (add_vectors w ix1 embeddings num_vectors) (\<lambda>ix2.
          bind_m (set_nprobe w ix2 clusters_var) (\<lambda>ix3.
          bind_m (set_ef_search w ix3) (\<lambda>ix4.
          move_to_cpu w b ix4)))))))"

subsection \<open>\<open>test_index\<close>\<close>

text \<open>The loop \<open>for i in range(num_test)\<close>, one search per query, stopping at an exception.\<close>

fun search_all :: "world \<Rightarrow> nat \<Rightarrow> ndarray list \<Rightarrow> unit action" where
  "search_all w k [] = return_m ()"
| "search_all w k (query # queries) =
     bind_m (invoke w (Search query k)) (\<lambda>_. search_all w k queries)"

text \<open>
  \<open>len(embeddings)\<close> raises \<open>TypeError\<close> on a rank-0 array. The two divisions are float
  divisions and raise \<open>ZeroDivisionError\<close> on a zero divisor. Time is a real number here:
  the rounding of float arithmetic is not part of the model.
\<close>

definition test_index :: "world \<Rightarrow> index \<Rightarrow> ndarray \<Rightarrow> nat \<Rightarrow> (real \<times> real) action" where
  "test_index w ix embeddings k =
     (case shape embeddings of
        [] \<Rightarrow> raise_m TypeError
      | len # rest \<Rightarrow>
          (let num_test = min 100 len;
               test_vectors = slice_rows embeddings 0 num_test
           in bind_m (log_m INFO (TestingSearch num_test)) (\<lambda>_.
              bind_m (time_time w) (\<lambda>start_time.
              bind_m (search_all w k
                        (map (\<lambda>i. slice_rows test_vectors i (i + 1)) [0..<num_test])) (\<lambda>_.
              bind_m (time_time w) (\<lambda>end_time.
              (let total_time = end_time - start_time
               in if num_test = 0 then raise_m ZeroDivisionError
                  else if total_time = 0 then raise_m ZeroDivisionError
                  else
                    (let avg_time_ms = (total_time / real num_test) * 1000;
                         qps = real num_test / total_time
                     in bind_m (log_m INFO (AverageSearchTime avg_time_ms)) (\<lambda>_.
                        bind_m (log_m INFO (QueriesPerSecond qps)) (\<lambda>_.
                        return_m (avg_time_ms, qps)))))))))))"

subsection \<open>\<open>save_index\<close>\<close>

text \<open>\<open>time.strftime("%Y%m%d-%H%M%S")\<close>: decimal digits, zero-padded.\<close>

definition digit :: "nat \<Rightarrow> char" where
  "digit n = ''0123456789'' ! (n mod 10)"

definition pad2 :: "nat \<Rightarrow> string" where
  "pad2 n = [digit (n div 10), digit n]"

definition pad4 :: "nat \<Rightarrow> string" where
  "pad4 n = [digit (n div 1000), digit (n div 100), digit (n div 10), digit n]"

definition strftime :: "timestamp \<Rightarrow> string" where
  "strftime t =
     pad4 (year t) @ pad2 (month t) @ pad2 (day t) @ ''-'' @
     pad2 (hour t) @ pad2 (minute t) @ pad2 (second t)"

text \<open>\<open>os.path.join(d, f)\<close> for a file name \<open>f\<close> that does not start with a slash.\<close>

definition path_join :: "path \<Rightarrow> string \<Rightarrow> path" where
  "path_join d f = (if d = [] \<or> last d = CHR ''/'' then d @ f else d @ ''/'' @ f)"

definition index_path :: "world \<Rightarrow> builder \<Rightarrow> path" where
  "index_path w b =
     path_join (save_dir b) (''faiss_'' @ index_type b @ ''_'' @ strftime (localtime w) @ ''.index'')"

definition metadata_path :: "world \<Rightarrow> builder \<Rightarrow> path" where
  "metadata_path w b =
     path_join (save_dir b)
       (''faiss_'' @ index_type b @ ''_'' @ strftime (localtime w) @ ''_meta.pkl'')"

definition latest_path :: "builder \<Rightarrow> path" where
  "latest_path b = path_join (save_dir b) (''faiss_'' @ index_type b @ ''_latest.index'')"

text \<open>
  \<open>os.path.exists\<close> follows symbolic links: a link whose chain of targets ends nowhere, or
  does not end within the 40 links the kernel follows, does not exist.
\<close>

fun resolves :: "nat \<Rightarrow> (path \<rightharpoonup> node) \<Rightarrow> path \<Rightarrow> bool" where
  "resolves 0 fs p = False"
| "resolves (Suc fuel) fs p =
     (case fs p of
        None \<Rightarrow> False
      | Some (Symlink target) \<Rightarrow> resolves fuel fs target
      | Some _ \<Rightarrow> True)"

definition os_path_exists :: "path \<Rightarrow> bool action" where
  "os_path_exists p s = (Inr (resolves 41 (files s) p), s)"

text \<open>\<open>os.remove\<close> removes a file or the link itself; \<open>os.symlink\<close> never replaces.\<close>

definition os_remove :: "path \<Rightarrow> unit action" where
  "os_remove p s =
     (let s1 = s\<lparr>trace := trace s @ [OsRemove p]\<rparr>
      in case files s p of
           None \<Rightarrow> (Inl FileNotFoundError, s1)
         | Some Dir \<Rightarrow> (Inl IsADirectoryError, s1)
         | Some _ \<Rightarrow> (Inr (), s1\<lparr>files := (files s)(p := None)\<rparr>))"

definition os_symlink :: "path \<Rightarrow> path \<Rightarrow> unit action" where
  "os_symlink target p s =
     (let s1 = s\<lparr>trace := trace s @ [OsSymlink target p]\<rparr>
      in case files s p of
           Some _ \<Rightarrow> (Inl FileExistsError, s1)
         | None \<Rightarrow> (Inr (), s1\<lparr>files := (files s)(p \<mapsto> Symlink target)\<rparr>))"

text \<open>
  A write opens the path, which truncates it, and then writes. When the open fails the
  path is as before; when the write fails part of the content is there.
\<close>

definition write_file :: "world \<Rightarrow> call \<Rightarrow> error \<Rightarrow> path \<Rightarrow> content \<Rightarrow> unit action" where
  "write_file w c e p x s =
     (let s1 = s\<lparr>trace := trace s @ [c]\<rparr>
      in case write_outcome w p of
           Written \<Rightarrow> (Inr (), s1\<lparr>files := (files s)(p \<mapsto> File x)\<rparr>)
         | OpenFailed \<Rightarrow> (Inl e, s1)
         | WriteFailed \<Rightarrow> (Inl e, s1\<lparr>files := (files s)(p \<mapsto> File Partial)\<rparr>))"

definition save_index :: "world \<Rightarrow> builder \<Rightarrow> index \<Rightarrow> metadata option \<Rightarrow> path action" where
  "save_index w b ix md =
     bind_m (write_file w (WriteIndex (index_path w b)) (EngineError (WriteIndex (index_path w b)))
               (index_path w b) (IndexBlob ix)) (\<lambda>_.
     bind_m (log_m INFO (IndexSaved (index_path w b))) (\<lambda>_.
     bind_m (case md of
               None \<Rightarrow> return_m ()
             | Some m \<Rightarrow>
                 bind_m (write_file w (PickleDump (metadata_path w b)) OSError
                           (metadata_path w b) (MetaBlob m)) (\<lambda>_.
                 log_m INFO (MetadataSaved (metadata_path w b)))) (\<lambda>_.
     bind_m (os_path_exists (latest_path b)) (\<lambda>ex.
     bind_m (if ex then os_remove (latest_path b) else return_m ()) (\<lambda>_.
     bind_m (os_symlink (index_path w b) (latest_path b)) (\<lambda>_.
     bind_m (log_m INFO (SymlinkCreated (latest_path b))) (\<lambda>_.
     return_m (index_path w b))))))))"

subsection \<open>\<open>build\<close>\<close>

text \<open>
  The \<open>parameters\<close> entry of the metadata: \<open>index.nprobe if hasattr(index, 'nprobe') else
  None\<close>, and \<open>index.hnsw.efSearch if hasattr(index, 'hnsw') else None\<close>.
\<close>

definition nprobe_parameter :: "world \<Rightarrow> index \<Rightarrow> nat option" where
  "nprobe_parameter w ix = (if hasattr w ix A_nprobe then nprobe ix else None)"

definition ef_search_parameter :: "world \<Rightarrow> index \<Rightarrow> nat option action" where
  "ef_search_parameter w ix =
     (if hasattr w ix A_hnsw then
        (if hasattr w ix A_hnsw_efSearch then return_m (efSearch ix) else raise_m AttributeError)
      else return_m None)"

definition build :: "world \<Rightarrow> builder \<Rightarrow> path action" where
  "build w b =
     bind_m (time_time w) (\<lambda>build_start.
     bind_m (load_embeddings w b) (\<lambda>embeddings.
     bind_m (build_index w b embeddings) (\<lambda>ix.
     bind_m (test_index w ix embeddings 10) (\<lambda>(avg_time_ms, qps).
     (case shape embeddings of
        num_vectors # dimension # rest \<Rightarrow>
          bind_m (time_time w) (\<lambda>t1.
          bind_m (ef_search_parameter w ix) (\<lambda>ef.
          bind_m (save_index w b ix
                    (Some \<lparr>md_index_type = index_type b, md_num_vectors = num_vectors,
                           md_dimension = dimension, md_build_time = t1 - build_start,
                           md_avg_query_time_ms = avg_time_ms, md_queries_per_second = qps,
                           md_nprobe = nprobe_parameter w ix, md_ef_search = ef\<rparr>)) (\<lambda>saved.
          bind_m (time_time w) (\<lambda>t2.
          bind_m (log_m INFO (BuildComplete (t2 - build_start))) (\<lambda>_.
          return_m saved)))))
      | _ \<Rightarrow> raise_m IndexError)))))"

subsection \<open>Notions used in the statements\<close>

text \<open>The calls made between two states of one run.\<close>

definition calls_since :: "state \<Rightarrow> state \<Rightarrow> call list" where
  "calls_since s s' = drop (length (trace s)) (trace s')"

definition is_train :: "call \<Rightarrow> bool" where
  "is_train c = (case c of Train _ \<Rightarrow> True | _ \<Rightarrow> False)"

definition is_add :: "call \<Rightarrow> bool" where
  "is_add c = (case c of Add _ \<Rightarrow> True | _ \<Rightarrow> False)"

definition is_link_call :: "call \<Rightarrow> bool" where
  "is_link_call c = (case c of OsRemove _ \<Rightarrow> True | OsSymlink _ _ \<Rightarrow> True | _ \<Rightarrow> False)"

text \<open>The tag that selects each index class in \<open>build_index\<close>.\<close>

definition variant_name :: "variant \<Rightarrow> string" where
  "variant_name v = (case v of Flat \<Rightarrow> ''flat'' | IVFPQ \<Rightarrow> ''ivfpq'' | HNSW \<Rightarrow> ''hnsw'')"

definition is_file_call :: "call \<Rightarrow> bool" where
  "is_file_call c =
     (case c of
        WriteIndex _ \<Rightarrow> True
      | PickleDump _ \<Rightarrow> True
      | OsRemove _ \<Rightarrow> True
      | OsSymlink _ _ \<Rightarrow> True
      | _ \<Rightarrow> False)"

definition plain :: "call \<Rightarrow> bool" where
  "plain c = (\<not> is_train c \<and> \<not> is_add c \<and> \<not> is_file_call c)"

text \<open>
  An action emits \<open>P\<close> when it leaves the files alone and every call it makes
  satisfies \<open>P\<close>.
\<close>

definition emits :: "(call \<Rightarrow> bool) \<Rightarrow> 'a action \<Rightarrow> bool" where
  "emits P m =
     (\<forall>s. files (snd (m s)) = files s \<and>
          (\<exists>cs. trace (snd (m s)) = trace s @ cs \<and> (\<forall>c\<in>set cs. P c)))"



subsection \<open>Sample worlds\<close>

text \<open>
  The attributes of the FAISS Python classes: every index has \<open>train\<close>; the IVF indexes
  have \<open>nprobe\<close>; the HNSW indexes have \<open>hnsw\<close>, which has \<open>efSearch\<close>.
\<close>

definition faiss_attrs :: "variant \<Rightarrow> bool \<Rightarrow> attr \<Rightarrow> bool" where
  "faiss_attrs v g a =
     (case a of
        A_train \<Rightarrow> True
      | A_nprobe \<Rightarrow> v = IVFPQ
      | A_hnsw \<Rightarrow> v = HNSW
      | A_hnsw_efSearch \<Rightarrow> v = HNSW)"

text \<open>
  A world without GPU in which no call raises and every write ends well; the clock
  advances by one second per reading; \<open>np.load\<close> returns \<open>x\<close>.
\<close>

definition quiet_world :: "loaded \<Rightarrow> world" where
  "quiet_world x =
     \<lparr>np_load = (\<lambda>_. x), has_attr = faiss_attrs, raises = (\<lambda>_. False), num_gpus = 0,
      clock = real,
      localtime = \<lparr>year = 2024, month = 1, day = 2, hour = 3, minute = 4, second = 5\<rparr>,
      write_outcome = (\<lambda>_. Written)\<rparr>"

definition empty_state :: state where
  "empty_state = \<lparr>trace = [], logs = [], ticks = 0, files = Map.empty\<rparr>"

text \<open>A builder for a given tag, without GPU.\<close>

definition sample_builder :: "string \<Rightarrow> builder" where
  "sample_builder tag = init ''embeddings.npy'' ''/data'' tag False"

text \<open>An \<open>n\<close> by \<open>d\<close> matrix of zeros.\<close>

definition matrix :: "nat \<Rightarrow> nat \<Rightarrow> ndarray" where
  "matrix n d = \<lparr>dtype = Float32, shape = [n, d], cells = replicate (n * d) (Fin 0)\<rparr>"




section \<open>Properties\<close>

subsection \<open>Running actions\<close>

lemma bind_m_cases:
  assumes "bind_m f g s = (r, s'')"
  obtains (raised) e where "f s = (Inl e, s'')" and "r = Inl e"
        | (returned) x s' where "f s = (Inr x, s')" and "g x s' = (r, s'')"
  using assms by (auto simp: bind_m_def split: prod.splits sum.splits)

lemma emits_return [simp]: "emits P (return_m x)"
  by (simp add: emits_def return_m_def)

lemma emits_raise [simp]: "emits P (raise_m e)"
  by (simp add: emits_def raise_m_def)

lemma emits_log [simp]: "emits P (log_m l m)"
  by (simp add: emits_def log_m_def)

lemma emits_time [simp]: "emits P (time_time w)"
  by (simp add: emits_def time_time_def)

lemma emits_invoke: "P c \<Longrightarrow> emits P (invoke w c)"
  by (simp add: emits_def invoke_def)

lemma emits_bind:
  assumes "emits P f" and "\<And>x. emits P (g x)"
  shows "emits P (bind_m f g)"
  unfolding emits_def
proof (intro allI)
  fix s
  obtain r s1 where f: "f s = (r, s1)" by (cases "f s")
  from assms(1) f obtain cs1 where 1: "files s1 = files s" "trace s1 = trace s @ cs1"
    "\<forall>c\<in>set cs1. P c"
    unfolding emits_def by (metis snd_conv)
  show "files (snd (bind_m f g s)) = files s \<and>
        (\<exists>cs. trace (snd (bind_m f g s)) = trace s @ cs \<and> (\<forall>c\<in>set cs. P c))"
  proof (cases r)
    case (Inl e)
    then show ?thesis using f 1 by (simp add: bind_m_def)
  next
    case (Inr x)
    from assms(2) [of x] obtain cs2 where 2: "files (snd (g x s1)) = files s1"
      "trace (snd (g x s1)) = trace s1 @ cs2" "\<forall>c\<in>set cs2. P c"
      unfolding emits_def by blast
    have "bind_m f g s = g x s1" using Inr f by (simp add: bind_m_def)
    then show ?thesis using 1 2 by (intro conjI exI [of _ "cs1 @ cs2"]) auto
  qed
qed


lemma emits_run:
  assumes "emits P m" and "m s = (r, s')"
  obtains cs where "files s' = files s" and "trace s' = trace s @ cs" and "\<forall>c\<in>set cs. P c"
  using assms unfolding emits_def by (metis snd_conv)

lemmas call_tests = plain_def is_train_def is_add_def is_file_call_def is_link_call_def

lemma emits_if: "(c \<Longrightarrow> emits P f) \<Longrightarrow> (\<not> c \<Longrightarrow> emits P g) \<Longrightarrow> emits P (if c then f else g)"
  by simp

lemmas emits_intros = emits_bind emits_invoke emits_log emits_return emits_raise emits_time

lemma emits_select_index: "emits plain (select_index w b d n)"
  unfolding select_index_def Let_def
  by (intro emits_intros emits_if) (simp_all add: call_tests)

lemma emits_gpu_wanted: "emits plain (gpu_wanted w b)"
  unfolding gpu_wanted_def
  by (intro emits_intros emits_if) (simp_all add: call_tests)

lemma emits_move_to_gpu: "emits plain (move_to_gpu w b ix)"
  unfolding move_to_gpu_def
  by (intro emits_intros emits_gpu_wanted emits_if)
     (simp_all add: call_tests)

lemma emits_move_to_cpu: "emits plain (move_to_cpu w b ix)"
  unfolding move_to_cpu_def
  by (intro emits_intros emits_gpu_wanted emits_if)
     (simp_all add: call_tests)

lemma emits_set_nprobe: "emits plain (set_nprobe w ix cv)"
  unfolding set_nprobe_def
  by (cases cv) (auto intro!: emits_intros simp: call_tests)

lemma emits_set_ef_search: "emits plain (set_ef_search w ix)"
  unfolding set_ef_search_def
  by (intro emits_intros emits_if) (simp_all add: call_tests)






text \<open>The two stages that are not plain.\<close>

lemma train_if_needed_run:
  assumes "train_if_needed w ix emb s = (r, s')"
  shows "files s' = files s \<and> trace s' = trace s @ (if hasattr w ix A_train then [Train emb] else [])"
  using assms
  by (auto simp: train_if_needed_def bind_m_def return_m_def log_m_def invoke_def time_time_def
      split: if_splits)

lemma add_vectors_run:
  assumes "add_vectors w ix emb n s = (r, s')"
  shows "files s' = files s \<and> trace s' = trace s @ [Add emb] \<and>
         (r = Inr (ix\<lparr>ntotal := ntotal ix + n\<rparr>) \<or> r = Inl (EngineError (Add emb)))"
  using assms
  by (auto simp: add_vectors_def bind_m_def return_m_def log_m_def invoke_def time_time_def
      split: if_splits)


lemmas prim_defs = bind_m_def return_m_def raise_m_def log_m_def invoke_def time_time_def

lemma select_index_returns:
  assumes "select_index w b d n s = (Inr (ix, cv), s')"
  shows "index_type b = variant_name (variant ix) \<and> \<not> on_gpu ix \<and> index_d ix = d \<and>
         nprobe ix = None \<and>
         (if variant ix = IVFPQ
          then nlist ix = num_clusters n \<and> subvectors ix = num_subvectors d \<and> bits ix = 8 \<and>
               cv = Some (num_clusters n)
          else cv = None)"
  using assms
  by (auto simp: select_index_def prim_defs new_index_def variant_name_def Let_def
      split: if_splits)


lemma move_to_gpu_returns:
  assumes "move_to_gpu w b ix s = (Inr ix', s')"
  shows "ix' = (if use_gpu b \<and> 0 < num_gpus w then ix\<lparr>on_gpu := True\<rparr> else ix)"
  using assms
  by (auto simp: move_to_gpu_def gpu_wanted_def prim_defs split: if_splits)

lemma move_to_cpu_returns:
  assumes "move_to_cpu w b ix s = (Inr ix', s')"
  shows "ix' = (if use_gpu b \<and> 0 < num_gpus w then ix\<lparr>on_gpu := False\<rparr> else ix)"
  using assms
  by (auto simp: move_to_cpu_def gpu_wanted_def prim_defs split: if_splits)

lemma set_nprobe_returns:
  assumes "set_nprobe w ix cv s = (Inr ix', s')"
  shows "ix' = (if hasattr w ix A_nprobe then ix\<lparr>nprobe := Some (nprobe_for (the cv))\<rparr> else ix) \<and>
         (hasattr w ix A_nprobe \<longrightarrow> cv \<noteq> None)"
  using assms
  by (auto simp: set_nprobe_def prim_defs split: if_splits option.splits)

lemma set_ef_search_returns:
  assumes "set_ef_search w ix s = (Inr ix', s')"
  shows "ix' = (if hasattr w ix A_hnsw \<and> hasattr w ix A_hnsw_efSearch
                then ix\<lparr>efSearch := Some 64\<rparr> else ix)"
  using assms
  by (auto simp: set_ef_search_def prim_defs split: if_splits)

text \<open>The head of \<open>build_index\<close>: the index is made and, when wanted, moved to the GPU.\<close>

lemma head_run:
  assumes "bind_m (select_index w b d n) (\<lambda>(ix0, cv). bind_m (move_to_gpu w b ix0) (K cv)) s = (r, s')"
  obtains (stopped) cs e where "r = Inl e" and "files s' = files s" and "trace s' = trace s @ cs"
      and "\<forall>c\<in>set cs. plain c"
    | (went_on) cs ix0 cv s1 where "K cv (ix0\<lparr>on_gpu := use_gpu b \<and> 0 < num_gpus w\<rparr>) s1 = (r, s')"
      and "files s1 = files s" and "trace s1 = trace s @ cs" and "\<forall>c\<in>set cs. plain c"
      and "index_type b = variant_name (variant ix0)" and "index_d ix0 = d" and "nprobe ix0 = None"
      and "if variant ix0 = IVFPQ
           then nlist ix0 = num_clusters n \<and> subvectors ix0 = num_subvectors d \<and> bits ix0 = 8 \<and>
                cv = Some (num_clusters n)
           else cv = None"
  using assms
proof (cases rule: bind_m_cases)
  case (raised e)
  from emits_select_index raised(1) obtain cs where "files s' = files s" "trace s' = trace s @ cs"
    "\<forall>c\<in>set cs. plain c" by (rule emits_run)
  with raised(2) show ?thesis by (rule stopped)
next
  case (returned x s0)
  obtain ix0 cv where x: "x = (ix0, cv)" by (cases x)
  from emits_select_index returned(1) obtain cs0 where 0: "files s0 = files s"
    "trace s0 = trace s @ cs0" "\<forall>c\<in>set cs0. plain c" by (rule emits_run)
  note sel = select_index_returns [OF returned(1) [unfolded x]]
  from returned(2) x have "bind_m (move_to_gpu w b ix0) (K cv) s0 = (r, s')" by simp
  then show ?thesis
  proof (cases rule: bind_m_cases)
    case (raised e)
    from emits_move_to_gpu raised(1) obtain cs1 where "files s' = files s0"
      "trace s' = trace s0 @ cs1" "\<forall>c\<in>set cs1. plain c" by (rule emits_run)
    with 0 have "files s' = files s" "trace s' = trace s @ (cs0 @ cs1)"
      "\<forall>c\<in>set (cs0 @ cs1). plain c" by auto
    with raised(2) show ?thesis by (rule stopped)
  next
    case (returned ix1 s1)
    from emits_move_to_gpu returned(1) obtain cs1 where "files s1 = files s0"
      "trace s1 = trace s0 @ cs1" "\<forall>c\<in>set cs1. plain c" by (rule emits_run)
    with 0 have 1: "files s1 = files s" "trace s1 = trace s @ (cs0 @ cs1)"
      "\<forall>c\<in>set (cs0 @ cs1). plain c" by auto
    have "ix1 = ix0\<lparr>on_gpu := use_gpu b \<and> 0 < num_gpus w\<rparr>"
      using move_to_gpu_returns [OF returned(1)] sel by simp
    with returned(2) have "K cv (ix0\<lparr>on_gpu := use_gpu b \<and> 0 < num_gpus w\<rparr>) s1 = (r, s')"
      by simp
    then show ?thesis using 1 sel by (intro went_on [of cv ix0 s1 "cs0 @ cs1"]) simp_all
  qed
qed

text \<open>The tail of \<open>build_index\<close>: the search parameters are set and the index comes back.\<close>

lemma tail_run:
  assumes "bind_m (set_nprobe w ix cv) (\<lambda>ix3. bind_m (set_ef_search w ix3) (\<lambda>ix4.
             move_to_cpu w b ix4)) s = (r, s')"
  obtains cs where "files s' = files s" and "trace s' = trace s @ cs" and "\<forall>c\<in>set cs. plain c"
    and "\<And>ix'. r = Inr ix' \<Longrightarrow>
           variant ix' = variant ix \<and> nlist ix' = nlist ix \<and> subvectors ix' = subvectors ix \<and>
           bits ix' = bits ix \<and> index_d ix' = index_d ix \<and> ntotal ix' = ntotal ix \<and>
           (hasattr w ix A_nprobe \<longrightarrow> cv \<noteq> None) \<and>
           nprobe ix' = (if hasattr w ix A_nprobe then Some (nprobe_for (the cv)) else nprobe ix)"
proof -
  have e: "emits plain (bind_m (set_nprobe w ix cv) (\<lambda>ix3. bind_m (set_ef_search w ix3) (\<lambda>ix4.
             move_to_cpu w b ix4)))"
    by (intro emits_bind emits_set_nprobe emits_set_ef_search emits_move_to_cpu)
  from e assms obtain cs where 1: "files s' = files s" "trace s' = trace s @ cs"
    "\<forall>c\<in>set cs. plain c" by (rule emits_run)
  have "variant ix' = variant ix \<and> nlist ix' = nlist ix \<and> subvectors ix' = subvectors ix \<and>
           bits ix' = bits ix \<and> index_d ix' = index_d ix \<and> ntotal ix' = ntotal ix \<and>
           (hasattr w ix A_nprobe \<longrightarrow> cv \<noteq> None) \<and>
           nprobe ix' = (if hasattr w ix A_nprobe then Some (nprobe_for (the cv)) else nprobe ix)"
    if "r = Inr ix'" for ix'
    using assms that
    by (auto elim!: bind_m_cases dest!: set_nprobe_returns set_ef_search_returns
        move_to_cpu_returns split: if_splits)
  with 1 show ?thesis by (rule that)
qed

text \<open>
  A run of \<open>build_index\<close> stops before training, or stops in training, or reaches the add.
\<close>

lemma build_index_run:
  assumes "build_index w b emb s = (r, s')"
  obtains (stopped) cs e where "r = Inl e" and "files s' = files s" and "trace s' = trace s @ cs"
      and "\<forall>c\<in>set cs. plain c"
    | (train_raised) cs ix0 where "r = Inl (EngineError (Train emb))"
      and "files s' = files s" and "trace s' = trace s @ cs @ [Train emb]"
      and "\<forall>c\<in>set cs. plain c" and "index_type b = variant_name (variant (ix0 :: index))"
      and "has_attr w (variant ix0) (use_gpu b \<and> 0 < num_gpus w) A_train"
    | (added) cs cs' n d rest ix0 cv where "shape emb = n # d # rest"
      and "files s' = files s"
      and "trace s' = trace s @ cs @
             (if has_attr w (variant (ix0 :: index)) (use_gpu b \<and> 0 < num_gpus w) A_train
              then [Train emb] else []) @ [Add emb] @ cs'"
      and "\<forall>c\<in>set cs. plain c" and "\<forall>c\<in>set cs'. plain c"
      and "index_type b = variant_name (variant ix0)"
      and "if variant ix0 = IVFPQ
           then nlist ix0 = num_clusters n \<and> subvectors ix0 = num_subvectors d \<and> bits ix0 = 8 \<and>
                cv = Some (num_clusters n)
           else cv = None"
      and "\<And>ix. r = Inr ix \<Longrightarrow>
             variant ix = variant ix0 \<and> nlist ix = nlist ix0 \<and> subvectors ix = subvectors ix0 \<and>
             bits ix = bits ix0 \<and> index_d ix = d \<and> ntotal ix = ntotal ix0 + n \<and>
             (has_attr w (variant ix0) (use_gpu b \<and> 0 < num_gpus w) A_nprobe \<longrightarrow> cv \<noteq> None) \<and>
             nprobe ix =
               (if has_attr w (variant ix0) (use_gpu b \<and> 0 < num_gpus w) A_nprobe
                then Some (nprobe_for (the cv)) else None)"
proof (cases "shape emb")
  case Nil
  with assms have "r = Inl IndexError" "files s' = files s" "trace s' = trace s @ []"
    "\<forall>c\<in>set []. plain c"
    by (simp_all add: build_index_def raise_m_def)
  then show ?thesis by (rule stopped)
next
  case (Cons n ds)
  show ?thesis
  proof (cases ds)
    case Nil
    with Cons assms have "r = Inl IndexError" "files s' = files s" "trace s' = trace s @ []"
      "\<forall>c\<in>set []. plain c"
      by (simp_all add: build_index_def raise_m_def)
    then show ?thesis by (rule stopped)
  next
    case (Cons d rest)
    with \<open>shape emb = n # ds\<close> have shp: "shape emb = n # d # rest" by simp
    define g where "g = (use_gpu b \<and> 0 < num_gpus w)"
    let ?K = "\<lambda>cv ix1.
          bind_m (train_if_needed w ix1 emb) (\<lambda>_.
          bind_m (add_vectors w ix1 emb n) (\<lambda>ix2.
          bind_m (set_nprobe w ix2 cv) (\<lambda>ix3.
          bind_m (set_ef_search w ix3) (\<lambda>ix4.
          move_to_cpu w b ix4))))"
    from assms shp
    have "bind_m (select_index w b d n) (\<lambda>(ix0, cv). bind_m (move_to_gpu w b ix0) (?K cv)) s = (r, s')"
      by (simp add: build_index_def)
    then show ?thesis
    proof (cases rule: head_run)
      case (stopped cs e)
      then show ?thesis by (intro that(1)) 
    next
      case (went_on cs ix0 cv s1)
      define ix1 where "ix1 = ix0\<lparr>on_gpu := g\<rparr>"
      have h: "hasattr w ix1 a = has_attr w (variant ix0) g a" for a
        by (simp add: hasattr_def ix1_def)
      from went_on(1) have "?K cv ix1 s1 = (r, s')" by (simp add: ix1_def g_def)
      then show ?thesis
      proof (cases rule: bind_m_cases)
        case (raised e)
        from train_if_needed_run [OF raised(1)] have t: "files s' = files s1"
          "trace s' = trace s1 @ (if has_attr w (variant ix0) g A_train then [Train emb] else [])"
          by (simp_all add: h)
        from raised(1) have e: "e = EngineError (Train emb) \<and> has_attr w (variant ix0) g A_train"
          by (auto simp: train_if_needed_def prim_defs h split: if_splits)
        show ?thesis
          using raised(2) e t went_on(2-5)
          by (intro train_raised [where cs = cs and ?ix0.0 = ix0]) (simp_all add: g_def)
      next
        case (returned u s2)
        from train_if_needed_run [OF returned(1)] have t: "files s2 = files s1"
          "trace s2 = trace s1 @ (if has_attr w (variant ix0) g A_train then [Train emb] else [])"
          by (simp_all add: h)
        from returned(2) show ?thesis
        proof (cases rule: bind_m_cases)
          case (raised e)
          from add_vectors_run [OF raised(1)] have a: "files s' = files s2"
            "trace s' = trace s2 @ [Add emb]" by simp_all
          show ?thesis
            using raised(2) a t went_on(2-8) shp
            by (intro added [where n = n and d = d and rest = rest and cs = cs and ?ix0.0 = ix0
                and cs' = "[]" and cv = cv]) (simp_all add: g_def)
        next
          case (returned ix2 s3)
          from add_vectors_run [OF returned(1)] have a: "files s3 = files s2"
            "trace s3 = trace s2 @ [Add emb]" "ix2 = ix1\<lparr>ntotal := ntotal ix1 + n\<rparr>"
            by simp_all
          have h2: "hasattr w ix2 a = has_attr w (variant ix0) g a" for a
            by (simp add: hasattr_def ix1_def a(3))
          from returned(2) show ?thesis
          proof (cases rule: tail_run)
            case (1 cs')
            have "variant ix = variant ix0 \<and> nlist ix = nlist ix0 \<and> subvectors ix = subvectors ix0 \<and>
             bits ix = bits ix0 \<and> index_d ix = d \<and> ntotal ix = ntotal ix0 + n \<and>
             (has_attr w (variant ix0) (use_gpu b \<and> 0 < num_gpus w) A_nprobe \<longrightarrow> cv \<noteq> None) \<and>
             nprobe ix =
               (if has_attr w (variant ix0) (use_gpu b \<and> 0 < num_gpus w) A_nprobe
                then Some (nprobe_for (the cv)) else None)" if "r = Inr ix" for ix
            proof -
              have f: "variant ix2 = variant ix0" "nlist ix2 = nlist ix0"
                "subvectors ix2 = subvectors ix0" "bits ix2 = bits ix0" "index_d ix2 = d"
                "ntotal ix2 = ntotal ix0 + n" "nprobe ix2 = None"
                using went_on(6,7) by (simp_all add: a(3) ix1_def)
              show ?thesis
                using 1(4) [OF that] by (simp add: h2 f g_def)
            qed
            then show ?thesis
              using 1(1-3) a t went_on(2-8) shp
              by (intro added [where n = n and d = d and rest = rest and cs = cs and ?ix0.0 = ix0
                and cs' = cs' and cv = cv]) (simp_all add: g_def)
          qed
        qed
      qed
    qed
  qed
qed

subsection \<open>The integer square root\<close>

lemma int_sqrt_bounds:
  "int_sqrt n * int_sqrt n \<le> n \<and> n < (int_sqrt n + 1) * (int_sqrt n + 1)"
proof (induction n rule: int_sqrt.induct)
  case (1 n)
  show ?case
  proof (cases "n < 2")
    case True
    then show ?thesis by (simp add: int_sqrt.simps [of n])
  next
    case False
    define q where "q = int_sqrt (n div 4)"
    from 1 False have ih: "q * q \<le> n div 4" "n div 4 < (q + 1) * (q + 1)"
      by (simp_all add: q_def)
    have lo: "(2 * q) * (2 * q) \<le> n"
    proof -
      have "(2 * q) * (2 * q) = 4 * (q * q)" by simp
      also have "\<dots> \<le> 4 * (n div 4)" using ih(1) by simp
      also have "\<dots> \<le> n" by simp
      finally show ?thesis .
    qed
    have hi: "n < (2 * q + 2) * (2 * q + 2)"
    proof -
      have "n < 4 * (n div 4) + 4" by presburger
      also have "\<dots> \<le> 4 * ((q + 1) * (q + 1))" using ih(2) by simp
      also have "\<dots> = (2 * q + 2) * (2 * q + 2)" by (simp add: algebra_simps)
      finally show ?thesis .
    qed
    show ?thesis
      using False lo hi
      by (simp add: int_sqrt.simps [of n] q_def [symmetric] Let_def)
  qed
qed

lemma int_sqrt_floor: "int (int_sqrt n) = \<lfloor>sqrt (real n)\<rfloor>"
proof -
  let ?r = "int_sqrt n"
  have b: "?r * ?r \<le> n" "n < (?r + 1) * (?r + 1)"
    using int_sqrt_bounds [of n] by simp_all
  have "real (?r * ?r) \<le> real n"
    using b(1) by (simp only: of_nat_le_iff)
  then have "(real ?r)\<^sup>2 \<le> real n"
    by (simp add: power2_eq_square)
  then have lo: "real ?r \<le> sqrt (real n)"
    by (rule real_le_rsqrt)
  have "real n < real ((?r + 1) * (?r + 1))"
    using b(2) by (simp only: of_nat_less_iff)
  then have "real n < (real ?r + 1)\<^sup>2"
    by (simp add: power2_eq_square algebra_simps)
  then have hi: "sqrt (real n) < real ?r + 1"
    by (intro real_less_lsqrt) simp_all
  have "\<lfloor>sqrt (real n)\<rfloor> = int ?r"
    using lo hi by (intro floor_unique) simp_all
  then show ?thesis by simp
qed

lemma int_sqrt_mono: "m \<le> n \<Longrightarrow> int_sqrt m \<le> int_sqrt n"
proof (rule ccontr)
  assume mn: "m \<le> n" and "\<not> int_sqrt m \<le> int_sqrt n"
  then have le: "int_sqrt n + 1 \<le> int_sqrt m" by simp
  have "(int_sqrt n + 1) * (int_sqrt n + 1) \<le> int_sqrt m * int_sqrt m"
    using le by (intro mult_le_mono) simp_all
  also have "\<dots> \<le> m" using int_sqrt_bounds [of m] by simp
  finally show False using int_sqrt_bounds [of n] mn by simp
qed

subsection \<open>Following links\<close>

lemma resolves_numeral:
  "resolves (numeral k) fs p =
     (case fs p of
        None \<Rightarrow> False
      | Some (Symlink target) \<Rightarrow> resolves (pred_numeral k) fs target
      | Some _ \<Rightarrow> True)"
  by (simp add: numeral_eq_Suc)

lemma resolves_None [simp]: "fs p = None \<Longrightarrow> \<not> resolves fuel fs p"
  by (cases fuel) simp_all

subsection \<open>Running the samples\<close>

lemmas run_defs = quiet_world_def empty_state_def matrix_def sample_builder_def init_def
  lower_def lower_char_def
  build_def load_embeddings_def load_body_def build_index_def select_index_def
  move_to_gpu_def gpu_wanted_def train_if_needed_def add_vectors_def set_nprobe_def
  set_ef_search_def move_to_cpu_def test_index_def save_index_def write_file_def
  os_path_exists_def os_remove_def os_symlink_def index_path_def metadata_path_def
  latest_path_def path_join_def strftime_def pad2_def pad4_def digit_def
  prim_defs hasattr_def
  faiss_attrs_def numeric_def nan_count_def nan_to_num_def slice_rows_def row_size_def
  nprobe_parameter_def ef_search_parameter_def new_index_def
  num_clusters_def num_subvectors_def nprobe_for_def calls_since_def Let_def
  resolves_numeral

lemma variant_name_eq [simp]:
  "variant_name v = ''flat'' \<longleftrightarrow> v = Flat"
  "variant_name v = ''ivfpq'' \<longleftrightarrow> v = IVFPQ"
  "variant_name v = ''hnsw'' \<longleftrightarrow> v = HNSW"
  "''flat'' = variant_name v \<longleftrightarrow> v = Flat"
  "''ivfpq'' = variant_name v \<longleftrightarrow> v = IVFPQ"
  "''hnsw'' = variant_name v \<longleftrightarrow> v = HNSW"
  by (cases v; simp add: variant_name_def)+

lemma build_index_1000_128:
  "fst (build_index (quiet_world Missing) (sample_builder ''ivfpq'') (matrix 1000 128) empty_state) =
     Inr \<lparr>variant = IVFPQ, index_d = 128, nlist = 31, subvectors = 64, bits = 8, hnsw_M = 0,
          on_gpu = False, ntotal = 1000, nprobe = Some 3, efConstruction = None,
          efSearch = None\<rparr>"
  by (simp add: run_defs int_sqrt.simps)


lemma build_index_ivfpq:
  assumes "index_type b = ''ivfpq''" and "shape emb = n # d # rest"
    and "fst (build_index w b emb s) = Inr ix"
  shows "nlist ix = num_clusters n \<and> subvectors ix = num_subvectors d \<and> bits ix = 8 \<and>
         nprobe ix = (if has_attr w IVFPQ (use_gpu b \<and> 0 < num_gpus w) A_nprobe
                      then Some (nprobe_for (num_clusters n)) else None)"
proof -
  obtain s' where run: "build_index w b emb s = (Inr ix, s')"
    using assms(3) by (cases "build_index w b emb s") simp
  from run show ?thesis
  proof (cases rule: build_index_run)
    case (added cs cs' n' d' rest' ix0 cv)
    from added(6) assms(1) have v: "variant ix0 = IVFPQ" by simp
    from added(1) assms(2) have nd: "n' = n" "d' = d" by simp_all
    from added(8) [OF refl] added(7) v nd show ?thesis by simp
  qed simp_all
qed



lemma round_sqrt_1000: "round (sqrt (real 1000)) = 32"
proof -
  have "sqrt (1000::real) < 32.5"
    by (intro real_less_lsqrt) (simp_all add: power2_eq_square)
  moreover have "(31.5::real) \<le> sqrt 1000"
    by (intro real_le_rsqrt) (simp add: power2_eq_square)
  ultimately show ?thesis unfolding round_def by (simp add: floor_eq_iff)
qed

subsection \<open>The cluster count grows with the data and stays within its bounds\<close>

text \<open>
  Claim C8. The cluster count that \<open>build_index\<close> derives for an IVFPQ index from the
  number of vectors never decreases when the number of vectors grows, is at least 4 and
  is at most 1024.
\<close>

theorem num_clusters_monotone_bounded:
  "(m \<le> n \<longrightarrow> num_clusters m \<le> num_clusters n) \<and> 4 \<le> num_clusters n \<and> num_clusters n \<le> 1024"
proof (intro conjI impI)
  assume "m \<le> n"
  then have "int_sqrt m \<le> int_sqrt n" by (rule int_sqrt_mono)
  then show "num_clusters m \<le> num_clusters n"
    unfolding num_clusters_def by (simp add: max.coboundedI1 min.coboundedI1)
next
  show "4 \<le> num_clusters n" unfolding num_clusters_def by simp
next
  show "num_clusters n \<le> 1024" unfolding num_clusters_def by simp
qed

theorem num_clusters_monotone_bounded_witness:
  "(10::nat) \<le> 1000 \<and> num_clusters 10 \<le> num_clusters 1000 \<and> num_clusters 10 = 4 \<and>
   num_clusters 1000 = 31"
proof -
  have le: "num_clusters 10 \<le> num_clusters 1000"
    using num_clusters_monotone_bounded [of 10 1000] by simp
  have "num_clusters 10 = 4" "num_clusters 1000 = 31"
    by (simp_all add: num_clusters_def int_sqrt.simps)
  with le show ?thesis by simp
qed

subsection \<open>The cluster count of an IVFPQ index\<close>

text \<open>
  Claim C1, as the code has it. The cluster count derived for an IVFPQ index is the
  integer part of the square root of the number of vectors, not its rounding, clamped to
  the range from 4 to 1024: an index that \<open>build_index\<close> returns for the tag \<open>ivfpq\<close> over
  an \<open>n\<close>-row matrix has that many clusters. For 1000 vectors of dimension 128 the index
  has 31 clusters and \<open>nprobe\<close> 3.
\<close>

theorem ivfpq_cluster_count:
  "int (num_clusters n) = max 4 (min 1024 \<lfloor>sqrt (real n)\<rfloor>) \<and>
   (index_type b = ''ivfpq'' \<and> shape emb = n # d # rest \<and> fst (build_index w b emb s) = Inr ix
      \<longrightarrow> nlist ix = num_clusters n) \<and>
   fst (build_index (quiet_world Missing) (sample_builder ''ivfpq'') (matrix 1000 128) empty_state) =
     Inr \<lparr>variant = IVFPQ, index_d = 128, nlist = 31, subvectors = 64, bits = 8, hnsw_M = 0,
          on_gpu = False, ntotal = 1000, nprobe = Some 3, efConstruction = None,
          efSearch = None\<rparr>"
proof (intro conjI impI)
  have "int (num_clusters n) = max (min (int (int_sqrt n)) 1024) 4"
    by (simp add: num_clusters_def)
  then show "int (num_clusters n) = max 4 (min 1024 \<lfloor>sqrt (real n)\<rfloor>)"
    by (simp add: int_sqrt_floor max.commute min.commute)
next
  assume "index_type b = ''ivfpq'' \<and> shape emb = n # d # rest \<and> fst (build_index w b emb s) = Inr ix"
  then show "nlist ix = num_clusters n"
    using build_index_ivfpq [of b emb n d rest w s ix] by simp
next
  show "fst (build_index (quiet_world Missing) (sample_builder ''ivfpq'') (matrix 1000 128) empty_state) =
     Inr \<lparr>variant = IVFPQ, index_d = 128, nlist = 31, subvectors = 64, bits = 8, hnsw_M = 0,
          on_gpu = False, ntotal = 1000, nprobe = Some 3, efConstruction = None,
          efSearch = None\<rparr>"
    by (rule build_index_1000_128)
qed

theorem ivfpq_cluster_count_counterexample:
  "fst (build_index (quiet_world Missing) (sample_builder ''ivfpq'') (matrix 1000 128) empty_state) =
     Inr \<lparr>variant = IVFPQ, index_d = 128, nlist = 31, subvectors = 64, bits = 8, hnsw_M = 0,
          on_gpu = False, ntotal = 1000, nprobe = Some 3, efConstruction = None,
          efSearch = None\<rparr> \<and>
   max 4 (min 1024 (round (sqrt (real 1000)))) = (32 :: int)"
  using build_index_1000_128 round_sqrt_1000 by simp

theorem ivfpq_cluster_count_witness:
  "index_type (sample_builder ''ivfpq'') = ''ivfpq'' \<and>
   shape (matrix 1000 128) = [1000, 128] \<and>
   nlist \<lparr>variant = IVFPQ, index_d = 128, nlist = 31, subvectors = 64, bits = 8, hnsw_M = 0,
          on_gpu = False, ntotal = 1000, nprobe = Some 3, efConstruction = None,
          efSearch = None\<rparr> = num_clusters 1000 \<and>
   int (num_clusters 1000) = max 4 (min 1024 \<lfloor>sqrt (real 1000)\<rfloor>)"
proof -
  have t: "index_type (sample_builder ''ivfpq'') = ''ivfpq''"
    by (simp add: sample_builder_def init_def lower_def lower_char_def)
  have m: "shape (matrix 1000 128) = [1000, 128]"
    by (simp add: matrix_def)
  note th = ivfpq_cluster_count [of 1000 "sample_builder ''ivfpq''" "matrix 1000 128" 128 "[]"
        "quiet_world Missing" empty_state
        "\<lparr>variant = IVFPQ, index_d = 128, nlist = 31, subvectors = 64, bits = 8, hnsw_M = 0,
          on_gpu = False, ntotal = 1000, nprobe = Some 3, efConstruction = None,
          efSearch = None\<rparr>"]
  from th have a: "int (num_clusters 1000) = max 4 (min 1024 \<lfloor>sqrt (real 1000)\<rfloor>)"
    by (rule conjunct1)
  from th t m have b:
    "nlist \<lparr>variant = IVFPQ, index_d = 128, nlist = 31, subvectors = 64, bits = 8, hnsw_M = 0,
          on_gpu = False, ntotal = 1000, nprobe = Some 3, efConstruction = None,
          efSearch = None\<rparr> = num_clusters 1000"
    by blast
  show ?thesis
    by (intro conjI t m a b)
qed

subsection \<open>The subvector count and the search width of an IVFPQ index\<close>



subsection \<open>Training happens once, before the add, whenever the index can be trained\<close>

text \<open>
  Claim C4, as the code has it. \<open>build_index\<close> calls \<open>train\<close> when the index object has
  a \<open>train\<close> attribute, whatever the variant (every FAISS index class has one, so a Flat
  or HNSW index is trained too). The calls of one run extend the trace; among them there
  is at most one \<open>train\<close>, it is given the whole matrix, and it comes before the one
  \<open>add\<close>. A run that returns an index has trained exactly when the attribute was there.
\<close>

theorem train_once_before_add:
  "trace (snd (build_index w b emb s)) = trace s @ calls_since s (snd (build_index w b emb s)) \<and>
   filter (\<lambda>c. is_train c \<or> is_add c) (calls_since s (snd (build_index w b emb s)))
     \<in> {[], [Train emb], [Train emb, Add emb], [Add emb]} \<and>
   (Train emb \<in> set (calls_since s (snd (build_index w b emb s))) \<longrightarrow>
      (\<exists>v. index_type b = variant_name v \<and> has_attr w v (use_gpu b \<and> 0 < num_gpus w) A_train)) \<and>
   (\<forall>ix. fst (build_index w b emb s) = Inr ix \<longrightarrow>
      filter (\<lambda>c. is_train c \<or> is_add c) (calls_since s (snd (build_index w b emb s))) =
        (if has_attr w (variant ix) (use_gpu b \<and> 0 < num_gpus w) A_train
         then [Train emb, Add emb] else [Add emb]))"
proof -
  obtain r s' where run: "build_index w b emb s = (r, s')"
    by (cases "build_index w b emb s")
  have quiet: "filter (\<lambda>c. is_train c \<or> is_add c) cs = []" if "\<forall>c\<in>set cs. plain c" for cs
    using that by (auto simp: filter_empty_conv plain_def)
  have ta: "is_train (Train emb)" "is_add (Add emb)" "\<not> is_add (Train emb)"
    by (simp_all add: is_train_def is_add_def)
  have notrain: "Train emb \<notin> set cs" if "\<forall>c\<in>set cs. plain c" for cs
    using that ta by (auto simp: plain_def)
  from run show ?thesis
  proof (cases rule: build_index_run)
    case (stopped cs e)
    have c: "calls_since s s' = cs"
      using stopped(3) by (simp add: calls_since_def)
    have t: "trace s' = trace s @ calls_since s s'"
      unfolding c by (rule stopped(3))
    have f: "filter (\<lambda>c. is_train c \<or> is_add c) (calls_since s s') = []"
      unfolding c by (rule quiet [OF stopped(4)])
    have m: "Train emb \<notin> set (calls_since s s')"
      unfolding c by (rule notrain [OF stopped(4)])
    show ?thesis
      unfolding run fst_conv snd_conv using t f m stopped(1) by simp
  next
    case (train_raised cs ix0)
    have c: "calls_since s s' = cs @ [Train emb]"
      using train_raised(3) by (simp add: calls_since_def)
    have t: "trace s' = trace s @ calls_since s s'"
      unfolding c by (rule train_raised(3))
    have f: "filter (\<lambda>c. is_train c \<or> is_add c) (calls_since s s') = [Train emb]"
      unfolding c using quiet [OF train_raised(4)] ta by simp
    have e: "\<exists>v. index_type b = variant_name v \<and>
                has_attr w v (use_gpu b \<and> 0 < num_gpus w) A_train"
      using train_raised(5,6) by blast
    show ?thesis
      unfolding run fst_conv snd_conv using t f e train_raised(1) by simp
  next
    case (added cs cs' n d rest ix0 cv)
    have c: "calls_since s s' = cs @
             (if has_attr w (variant ix0) (use_gpu b \<and> 0 < num_gpus w) A_train
              then [Train emb] else []) @ [Add emb] @ cs'"
      using added(3) by (simp add: calls_since_def)
    have t: "trace s' = trace s @ calls_since s s'"
      unfolding c by (rule added(3))
    have f: "filter (\<lambda>c. is_train c \<or> is_add c) (calls_since s s') =
             (if has_attr w (variant ix0) (use_gpu b \<and> 0 < num_gpus w) A_train
              then [Train emb, Add emb] else [Add emb])"
      unfolding c using quiet [OF added(4)] quiet [OF added(5)] ta by simp
    have v: "variant ix = variant ix0" if "r = Inr ix" for ix
      using added(8) [OF that] by simp
    have m: "Train emb \<in> set (calls_since s s') \<longleftrightarrow>
               has_attr w (variant ix0) (use_gpu b \<and> 0 < num_gpus w) A_train"
      unfolding c using notrain [OF added(4)] notrain [OF added(5)] by simp
    have e: "\<exists>v. index_type b = variant_name v \<and>
                has_attr w v (use_gpu b \<and> 0 < num_gpus w) A_train"
      if "Train emb \<in> set (calls_since s s')"
      using that m added(6) by blast
    have g: "filter (\<lambda>c. is_train c \<or> is_add c) (calls_since s s') =
        (if has_attr w (variant ix) (use_gpu b \<and> 0 < num_gpus w) A_train
         then [Train emb, Add emb] else [Add emb])" if "r = Inr ix" for ix
      unfolding f v [OF that] by (rule refl)
    have k: "filter (\<lambda>c. is_train c \<or> is_add c) (calls_since s s')
       \<in> {[], [Train emb], [Train emb, Add emb], [Add emb]}"
      unfolding f by simp
    show ?thesis
      unfolding run fst_conv snd_conv using t k e g by blast
  qed
qed

theorem train_once_before_add_counterexample:
  "index_type (sample_builder ''flat'') = ''flat'' \<and>
   fst (build_index (quiet_world Missing) (sample_builder ''flat'') (matrix 1 1) empty_state) =
     Inr \<lparr>variant = Flat, index_d = 1, nlist = 0, subvectors = 0, bits = 0, hnsw_M = 0,
          on_gpu = False, ntotal = 1, nprobe = None, efConstruction = None, efSearch = None\<rparr> \<and>
   trace (snd (build_index (quiet_world Missing) (sample_builder ''flat'') (matrix 1 1) empty_state)) =
     [NewIndexFlatL2 1, Train (matrix 1 1), Add (matrix 1 1)]"
  by (simp add: run_defs)

theorem train_once_before_add_witness:
  "Train (matrix 1 1) \<in> set (calls_since empty_state
      (snd (build_index (quiet_world Missing) (sample_builder ''hnsw'') (matrix 1 1) empty_state))) \<and>
   (\<exists>v. index_type (sample_builder ''hnsw'') = variant_name v \<and>
        has_attr (quiet_world Missing) v
          (use_gpu (sample_builder ''hnsw'') \<and> 0 < num_gpus (quiet_world Missing)) A_train) \<and>
   filter (\<lambda>c. is_train c \<or> is_add c) (calls_since empty_state
      (snd (build_index (quiet_world Missing) (sample_builder ''hnsw'') (matrix 1 1) empty_state))) =
     [Train (matrix 1 1), Add (matrix 1 1)]"
proof -
  have c: "calls_since empty_state
      (snd (build_index (quiet_world Missing) (sample_builder ''hnsw'') (matrix 1 1) empty_state)) =
     [NewIndexHNSWFlat 1 16, SetEfConstruction 200, Train (matrix 1 1), Add (matrix 1 1),
      SetEfSearch 64]"
    by (simp add: run_defs)
  have m: "Train (matrix 1 1) \<in> set (calls_since empty_state
      (snd (build_index (quiet_world Missing) (sample_builder ''hnsw'') (matrix 1 1) empty_state)))"
    unfolding c by simp
  have f: "filter (\<lambda>c. is_train c \<or> is_add c) (calls_since empty_state
      (snd (build_index (quiet_world Missing) (sample_builder ''hnsw'') (matrix 1 1) empty_state))) =
     [Train (matrix 1 1), Add (matrix 1 1)]"
    unfolding c by (simp add: is_train_def is_add_def)
  from m train_once_before_add [of "quiet_world Missing" "sample_builder ''hnsw''" "matrix 1 1"
      empty_state]
  have e: "\<exists>v. index_type (sample_builder ''hnsw'') = variant_name v \<and>
        has_attr (quiet_world Missing) v
          (use_gpu (sample_builder ''hnsw'') \<and> 0 < num_gpus (quiet_world Missing)) A_train"
    by blast
  show ?thesis
    by (intro conjI m e f)
qed

subsection \<open>What the loader returns\<close>

lemma load_embeddings_array:
  assumes "np_load w (data_path b) = Array x" and "shape x = n # d # rest"
    and "numeric (dtype x)"
  shows "load_embeddings w b s =
           (Inr (if 0 < nan_count x then nan_to_num x else x),
            s\<lparr>logs := logs s @ (INFO, Loaded n d) #
                   (if 0 < nan_count x then [(WARNING, FoundNaN (nan_count x))] else [])\<rparr>)"
  using assms by (simp add: load_embeddings_def load_body_def prim_defs)

lemma load_embeddings_fails_iff:
  "isl (fst (load_embeddings w b s)) =
     (case np_load w (data_path b) of
        Array x \<Rightarrow> length (shape x) < 2 \<or> \<not> numeric (dtype x)
      | _ \<Rightarrow> True)"
  by (simp add: load_embeddings_def load_body_def prim_defs
      split: loaded.splits list.splits)

lemma load_embeddings_missing_iff:
  "(fst (load_embeddings w b s) = Inl FileNotFoundError) = (np_load w (data_path b) = Missing)"
  by (simp add: load_embeddings_def load_body_def prim_defs
      split: loaded.splits list.splits)

lemma nan_to_num_cell_not_nan: "nan_to_num_cell t v \<noteq> NaN"
  by (cases v) simp_all

lemma no_nan_after: "NaN \<notin> set (cells (if 0 < nan_count x then nan_to_num x else x))"
proof (cases "0 < nan_count x")
  case True
  then show ?thesis
    by (auto simp: nan_to_num_def nan_to_num_cell_not_nan [symmetric])
next
  case False
  then have "filter (\<lambda>v. v = NaN) (cells x) = []" by (simp add: nan_count_def)
  then have "NaN \<notin> set (cells x)" by (auto simp: filter_empty_conv)
  with False show ?thesis by simp
qed

subsection \<open>The loader replaces every NaN\<close>

text \<open>
  Claim C3, as the code has it. For a numeric array of rank two or more the loader
  returns an array of the same shape without NaN: every NaN cell has become zero, every
  finite cell is as it was, the number of NaN cells is logged as a warning when there is
  one, and the load does not fail. Infinite cells are not looked for: an array without
  NaN is returned as it is, infinities included.
\<close>

theorem load_embeddings_replaces_nan:
  assumes "np_load w (data_path b) = Array x" and "2 \<le> length (shape x)"
    and "numeric (dtype x)"
  shows "\<exists>a s'. load_embeddings w b s = (Inr a, s') \<and>
           shape a = shape x \<and> length (cells a) = length (cells x) \<and>
           NaN \<notin> set (cells a) \<and>
           (\<forall>i<length (cells x). cells x ! i = NaN \<longrightarrow> cells a ! i = Fin 0) \<and>
           (\<forall>i<length (cells x). \<forall>v. cells x ! i = Fin v \<longrightarrow> cells a ! i = Fin v) \<and>
           (nan_count x = 0 \<longrightarrow> a = x) \<and>
           (0 < nan_count x \<longrightarrow> last (logs s') = (WARNING, FoundNaN (nan_count x))) \<and>
           trace s' = trace s \<and> files s' = files s"
proof -
  from assms(2) obtain n d rest where shp: "shape x = n # d # rest"
    by (cases "shape x"; simp; cases "tl (shape x)"; simp)
  let ?a = "if 0 < nan_count x then nan_to_num x else x"
  note run = load_embeddings_array [OF assms(1) shp assms(3), of s]
  have 1: "shape ?a = shape x" "length (cells ?a) = length (cells x)"
    by (simp_all add: nan_to_num_def)
  have 2: "\<forall>i<length (cells x). cells x ! i = NaN \<longrightarrow> cells ?a ! i = Fin 0"
  proof (intro allI impI)
    fix i assume i: "i < length (cells x)" "cells x ! i = NaN"
    then have "NaN \<in> set (cells x)" by (metis nth_mem)
    then have "filter (\<lambda>v. v = NaN) (cells x) \<noteq> []" by (simp add: filter_empty_conv)
    then have "0 < nan_count x" by (simp add: nan_count_def)
    with i show "cells ?a ! i = Fin 0" by (simp add: nan_to_num_def)
  qed
  have 3: "\<forall>i<length (cells x). \<forall>v. cells x ! i = Fin v \<longrightarrow> cells ?a ! i = Fin v"
    by (simp add: nan_to_num_def)
  show ?thesis
    unfolding run using 1 2 3 no_nan_after [of x] by simp
qed

theorem load_embeddings_replaces_nan_counterexample:
  "fst (load_embeddings
          (quiet_world (Array \<lparr>dtype = Float32, shape = [1, 2], cells = [PosInf, Fin 1]\<rparr>))
          (sample_builder ''flat'') empty_state) =
     Inr \<lparr>dtype = Float32, shape = [1, 2], cells = [PosInf, Fin 1]\<rparr> \<and>
   PosInf \<in> set (cells \<lparr>dtype = Float32, shape = [1, 2], cells = [PosInf, Fin 1]\<rparr>)"
  by (simp add: run_defs)

theorem load_embeddings_replaces_nan_witness:
  "np_load (quiet_world (Array \<lparr>dtype = Float32, shape = [1, 2], cells = [NaN, Fin 1]\<rparr>))
     (data_path (sample_builder ''flat'')) =
     Array \<lparr>dtype = Float32, shape = [1, 2], cells = [NaN, Fin 1]\<rparr> \<and>
   2 \<le> length (shape \<lparr>dtype = Float32, shape = [1, 2], cells = [NaN, Fin 1]\<rparr>) \<and>
   numeric (dtype \<lparr>dtype = Float32, shape = [1, 2], cells = [NaN, Fin 1]\<rparr>) \<and>
   (\<exists>a s'. load_embeddings
              (quiet_world (Array \<lparr>dtype = Float32, shape = [1, 2], cells = [NaN, Fin 1]\<rparr>))
              (sample_builder ''flat'') empty_state = (Inr a, s') \<and>
           NaN \<notin> set (cells a)) \<and>
   fst (load_embeddings
          (quiet_world (Array \<lparr>dtype = Float32, shape = [1, 2], cells = [NaN, Fin 1]\<rparr>))
          (sample_builder ''flat'') empty_state) =
     Inr \<lparr>dtype = Float32, shape = [1, 2], cells = [Fin 0, Fin 1]\<rparr> \<and>
   logs (snd (load_embeddings
          (quiet_world (Array \<lparr>dtype = Float32, shape = [1, 2], cells = [NaN, Fin 1]\<rparr>))
          (sample_builder ''flat'') empty_state)) =
     [(INFO, Loaded 1 2), (WARNING, FoundNaN 1)]"
proof -
  let ?x = "\<lparr>dtype = Float32, shape = [1, 2], cells = [NaN, Fin 1]\<rparr>"
  have l: "np_load (quiet_world (Array ?x)) (data_path (sample_builder ''flat'')) = Array ?x"
    by (simp add: quiet_world_def)
  have r: "2 \<le> length (shape ?x)" by simp
  have n: "numeric (dtype ?x)" by (simp add: numeric_def)
  from load_embeddings_replaces_nan [OF l r n, of empty_state]
  have e: "\<exists>a s'. load_embeddings (quiet_world (Array ?x)) (sample_builder ''flat'') empty_state =
                    (Inr a, s') \<and> NaN \<notin> set (cells a)"
    by blast
  have v: "fst (load_embeddings (quiet_world (Array ?x)) (sample_builder ''flat'') empty_state) =
     Inr \<lparr>dtype = Float32, shape = [1, 2], cells = [Fin 0, Fin 1]\<rparr>"
    by (simp add: run_defs)
  have g: "logs (snd (load_embeddings (quiet_world (Array ?x)) (sample_builder ''flat'')
             empty_state)) = [(INFO, Loaded 1 2), (WARNING, FoundNaN 1)]"
    by (simp add: run_defs)
  show ?thesis
    by (intro conjI l r n e v g)
qed

subsection \<open>What the loader rejects\<close>

text \<open>
  Claim C6, as the code has it. The loader fails exactly when the loaded object is not
  an array, or is an array of rank zero or one, or is an array that is not numeric, and
  the failure is \<open>FileNotFoundError\<close> only when there is no file. The rank is not compared
  with two: a numeric array of rank two or more is accepted, a matrix always and an
  array of rank three as well.
\<close>

theorem load_embeddings_rejects:
  "isl (fst (load_embeddings w b s)) =
     (case np_load w (data_path b) of
        Array x \<Rightarrow> length (shape x) < 2 \<or> \<not> numeric (dtype x)
      | _ \<Rightarrow> True) \<and>
   (fst (load_embeddings w b s) = Inl FileNotFoundError) = (np_load w (data_path b) = Missing)"
  using load_embeddings_fails_iff [of w b s] load_embeddings_missing_iff [of w b s]
  by (rule conjI)

theorem load_embeddings_rejects_counterexample:
  "length (shape \<lparr>dtype = Float32, shape = [2, 2, 2], cells = replicate 8 (Fin 0)\<rparr>) = 3 \<and>
   fst (load_embeddings
          (quiet_world (Array \<lparr>dtype = Float32, shape = [2, 2, 2], cells = replicate 8 (Fin 0)\<rparr>))
          (sample_builder ''flat'') empty_state) =
     Inr \<lparr>dtype = Float32, shape = [2, 2, 2], cells = replicate 8 (Fin 0)\<rparr>"
  by (simp add: run_defs)

theorem load_embeddings_rejects_witness:
  "isl (fst (load_embeddings
          (quiet_world (Array \<lparr>dtype = Float32, shape = [3], cells = replicate 3 (Fin 0)\<rparr>))
          (sample_builder ''flat'') empty_state)) \<and>
   isl (fst (load_embeddings
          (quiet_world (Array \<lparr>dtype = Unicode, shape = [1, 1], cells = []\<rparr>))
          (sample_builder ''flat'') empty_state)) \<and>
   \<not> isl (fst (load_embeddings (quiet_world (Array (matrix 2 3)))
          (sample_builder ''flat'') empty_state)) \<and>
   fst (load_embeddings (quiet_world Unreadable) (sample_builder ''flat'') empty_state) \<noteq>
     Inl FileNotFoundError"
proof -
  have a: "isl (fst (load_embeddings
          (quiet_world (Array \<lparr>dtype = Float32, shape = [3], cells = replicate 3 (Fin 0)\<rparr>))
          (sample_builder ''flat'') empty_state))"
    using load_embeddings_rejects [of
        "quiet_world (Array \<lparr>dtype = Float32, shape = [3], cells = replicate 3 (Fin 0)\<rparr>)"
        "sample_builder ''flat''" empty_state]
    by (simp add: quiet_world_def)
  have b: "isl (fst (load_embeddings
          (quiet_world (Array \<lparr>dtype = Unicode, shape = [1, 1], cells = []\<rparr>))
          (sample_builder ''flat'') empty_state))"
    using load_embeddings_rejects [of
        "quiet_world (Array \<lparr>dtype = Unicode, shape = [1, 1], cells = []\<rparr>)"
        "sample_builder ''flat''" empty_state]
    by (simp add: quiet_world_def numeric_def)
  have c: "\<not> isl (fst (load_embeddings (quiet_world (Array (matrix 2 3)))
          (sample_builder ''flat'') empty_state))"
    using load_embeddings_rejects [of "quiet_world (Array (matrix 2 3))"
        "sample_builder ''flat''" empty_state]
    by (simp add: quiet_world_def numeric_def matrix_def)
  have d: "fst (load_embeddings (quiet_world Unreadable) (sample_builder ''flat'') empty_state) \<noteq>
     Inl FileNotFoundError"
    using load_embeddings_rejects [of "quiet_world Unreadable" "sample_builder ''flat''"
        empty_state]
    by (simp add: quiet_world_def)
  show ?thesis
    by (intro conjI a b c d)
qed

subsection \<open>An unknown tag\<close>








subsection \<open>The benchmark\<close>








subsection \<open>The three paths of a save\<close>


lemma path_join_eq [simp]: "path_join d f = path_join d g \<longleftrightarrow> f = g"
  by (simp add: path_join_def)


subsection \<open>Runs of \<open>save_index\<close>\<close>




subsection \<open>What a build publishes\<close>







subsection \<open>A failed build leaves the link alone\<close>




subsection \<open>A dangling link stops the save\<close>



end
